theory Spec2Isabelle
  imports Main "HOL-Library.Word"
begin

section \<open>Carrying NVVM annotations from the MLIR module to the LLVM IR module\<close>

text \<open>
  A shallow embedding of \<^verbatim>\<open>lib/Target/LLVMIR/LLVMIRTranslation.cpp\<close>: the record
  \<^verbatim>\<open>NVVMMetadata\<close>, the functions \<^verbatim>\<open>amendLLVMFunc\<close>, \<^verbatim>\<open>extractNVVMMetadata\<close> and
  \<^verbatim>\<open>TranslateLLVMToLLVMIR\<close>. The MLIR and LLVM libraries are not part of the file: the
  pieces of their data the code reads or writes are modelled below, and the library
  routines the driver calls (the translator, the target set-up, the optimisation
  pipeline) are parameters.
\<close>

subsection \<open>The MLIR side: attributes, function operations, the module\<close>

text \<open>
  An attribute is an integer attribute (whose \<^verbatim>\<open>getInt()\<close> is an \<^verbatim>\<open>int64_t\<close>) or
  some attribute of another kind.
\<close>

datatype attribute = IntegerAttr "64 word" | StringAttr string | UnitAttr

text \<open>
  An \<^verbatim>\<open>LLVM::LLVMFuncOp\<close>: its symbol name and its attribute dictionary. The dictionary
  is a list of named attributes; \<^verbatim>\<open>getAttr\<close> finds the entry of a name.
\<close>

record LLVMFuncOp =
  sym_name :: string
  attrs :: "(string \<times> attribute) list"

definition getAttr :: "LLVMFuncOp \<Rightarrow> string \<Rightarrow> attribute option" where
  "getAttr fop k = map_of (attrs fop) k"

definition hasAttr :: "LLVMFuncOp \<Rightarrow> string \<Rightarrow> bool" where
  "hasAttr fop k = (getAttr fop k \<noteq> None)"

text \<open>
  The body of a \<^verbatim>\<open>ModuleOp\<close> is a list of operations; \<^verbatim>\<open>getOps<LLVM::LLVMFuncOp>()\<close>
  walks the function operations among them, in order.
\<close>

datatype operation = FuncOp LLVMFuncOp | OtherOp string

record ModuleOp =
  body :: "operation list"

fun getOps_LLVMFuncOp_list :: "operation list \<Rightarrow> LLVMFuncOp list" where
  "getOps_LLVMFuncOp_list [] = []"
| "getOps_LLVMFuncOp_list (FuncOp f # ops) = f # getOps_LLVMFuncOp_list ops"
| "getOps_LLVMFuncOp_list (OtherOp _ # ops) = getOps_LLVMFuncOp_list ops"

definition getOps_LLVMFuncOp :: "ModuleOp \<Rightarrow> LLVMFuncOp list" where
  "getOps_LLVMFuncOp m = getOps_LLVMFuncOp_list (body m)"

text \<open>
  \<^verbatim>\<open>attr.dyn_cast<IntegerAttr>()\<close> is the null attribute when \<^verbatim>\<open>attr\<close> is not an integer
  attribute, and \<^verbatim>\<open>getInt()\<close> reads through the attribute's storage: on the null
  attribute the read dereferences a null pointer. The model stops there with the
  failure \<open>NullAttribute\<close>.
\<close>

datatype failure = NullAttribute

fun dyn_cast_IntegerAttr :: "attribute \<Rightarrow> 64 word option" where
  "dyn_cast_IntegerAttr (IntegerAttr v) = Some v"
| "dyn_cast_IntegerAttr (StringAttr _) = None"
| "dyn_cast_IntegerAttr UnitAttr = None"

fun getInt :: "64 word option \<Rightarrow> failure + 64 word" where
  "getInt None = Inl NullAttribute"
| "getInt (Some v) = Inr v"

text \<open>
  The attribute names \<^verbatim>\<open>NVVMMetadataField::MaxNTid\<close> and \<^verbatim>\<open>NVVMMetadataField::Kernel\<close>
  are declared in a header that is not part of the file; they are fields of a parameter.
\<close>

record NVVMMetadataField =
  MaxNTid :: string
  Kernel :: string

subsection \<open>The side table\<close>

text \<open>
  \<^verbatim>\<open>struct NVVMMetadata { int maxntidx{-1}; bool is_kernel{}; }\<close>: \<^verbatim>\<open>int\<close> is a 32-bit
  two's complement integer.
\<close>

record NVVMMetadata =
  maxntidx :: "32 word"
  is_kernel :: bool

definition NVVMMetadata_init :: NVVMMetadata where
  "NVVMMetadata_init = \<lparr>maxntidx = - 1, is_kernel = False\<rparr>"

text \<open>
  \<^verbatim>\<open>llvm::DenseMap<llvm::StringRef, NVVMMetadata>\<close> as the list of its (key, value)
  buckets, in the order of insertion. \<^verbatim>\<open>try_emplace\<close> inserts only when the key is not
  there yet; \<^verbatim>\<open>find\<close> looks a key up.
\<close>

type_synonym 'v DenseMap = "(string \<times> 'v) list"

definition DenseMap_find :: "'v DenseMap \<Rightarrow> string \<Rightarrow> 'v option" where
  "DenseMap_find dic k = map_of dic k"

definition try_emplace :: "'v DenseMap \<Rightarrow> string \<Rightarrow> 'v \<Rightarrow> 'v DenseMap" where
  "try_emplace dic k v = (case DenseMap_find dic k of None \<Rightarrow> dic @ [(k, v)] | Some _ \<Rightarrow> dic)"

subsection \<open>The LLVM side: functions, metadata nodes, the module\<close>

text \<open>
  A metadata operand is a value wrapped as metadata or a metadata string. The values that
  occur are a reference to a function (a function of a module is identified by its name)
  and a 32-bit integer constant.
\<close>

datatype llvm_value = Function_ref string | ConstantInt_i32 "32 word"

datatype metadata = ValueAsMetadata llvm_value | MDString string

datatype mdnode = MDNode (operands: "metadata list")

record llvm_function =
  fname :: string

text \<open>
  An \<^verbatim>\<open>llvm::Module\<close>: its functions, and its named metadata, each a name with a list of
  operands.
\<close>

record llvm_module =
  functions' :: "llvm_function list"
  named_metadata :: "string \<rightharpoonup> mdnode list"

definition getOrInsertNamedMetadata :: "string \<Rightarrow> llvm_module \<Rightarrow> llvm_module" where
  "getOrInsertNamedMetadata nm m =
     (case named_metadata m nm of
        None \<Rightarrow> m\<lparr>named_metadata := (named_metadata m)(nm \<mapsto> [])\<rparr>
      | Some _ \<Rightarrow> m)"

definition addOperand :: "string \<Rightarrow> mdnode \<Rightarrow> llvm_module \<Rightarrow> llvm_module" where
  "addOperand nm node m =
     (case named_metadata m nm of
        None \<Rightarrow> m
      | Some nodes \<Rightarrow> m\<lparr>named_metadata := (named_metadata m)(nm \<mapsto> nodes @ [node])\<rparr>)"

definition getNamedMetadata :: "llvm_module \<Rightarrow> string \<Rightarrow> mdnode list" where
  "getNamedMetadata m nm = (case named_metadata m nm of None \<Rightarrow> [] | Some nodes \<Rightarrow> nodes)"

text \<open>
  \<^verbatim>\<open>llvm::APInt(32, v)\<close> takes \<^verbatim>\<open>v\<close> as a \<^verbatim>\<open>uint64_t\<close> and keeps its low 32 bits; an
  \<^verbatim>\<open>int\<close> argument is converted to \<^verbatim>\<open>uint64_t\<close> by sign extension.
\<close>

definition APInt_32 :: "64 word \<Rightarrow> 32 word" where
  "APInt_32 v = ucast v"

definition int_to_uint64 :: "32 word \<Rightarrow> 64 word" where
  "int_to_uint64 i = scast i"

subsection \<open>amendLLVMFunc\<close>

definition maxntidx_node :: "llvm_function \<Rightarrow> 32 word \<Rightarrow> mdnode" where
  "maxntidx_node func c =
     MDNode [ValueAsMetadata (Function_ref (fname func)), MDString ''maxntidx'',
             ValueAsMetadata (ConstantInt_i32 c)]"

definition kernel_node :: "llvm_function \<Rightarrow> mdnode" where
  "kernel_node func =
     MDNode [ValueAsMetadata (Function_ref (fname func)), MDString ''kernel'',
             ValueAsMetadata (ConstantInt_i32 1)]"

definition amendLLVMFunc :: "llvm_function \<Rightarrow> NVVMMetadata \<Rightarrow> llvm_module \<Rightarrow> llvm_module" where
  "amendLLVMFunc func metadata module =
     (let module1 =
            (if 0 <s maxntidx metadata then
               (let warps = APInt_32 (int_to_uint64 (maxntidx metadata))
                in addOperand ''nvvm.annotations'' (maxntidx_node func warps)
                     (getOrInsertNamedMetadata ''nvvm.annotations'' module))
             else module)
      in if is_kernel metadata then
           addOperand ''nvvm.annotations'' (kernel_node func)
             (getOrInsertNamedMetadata ''nvvm.annotations'' module1)
         else module1)"

subsection \<open>extractNVVMMetadata\<close>

text \<open>
  One round of the loop over the function operations. Storing the \<^verbatim>\<open>int64_t\<close> of
  \<^verbatim>\<open>getInt()\<close> in the \<^verbatim>\<open>int\<close> field keeps its low 32 bits.
\<close>

definition extract_maxntid ::
  "NVVMMetadataField \<Rightarrow> LLVMFuncOp \<Rightarrow> NVVMMetadata \<times> bool \<Rightarrow> failure + NVVMMetadata \<times> bool" where
  "extract_maxntid fld fop s =
     (case s of (meta, hasMetadata) \<Rightarrow>
        if hasAttr fop (MaxNTid fld) then
          (case getAttr fop (MaxNTid fld) of
             None \<Rightarrow> Inr (meta, hasMetadata)
           | Some attr \<Rightarrow>
               (case getInt (dyn_cast_IntegerAttr attr) of
                  Inl e \<Rightarrow> Inl e
                | Inr v \<Rightarrow> Inr (meta\<lparr>maxntidx := ucast v\<rparr>, True)))
        else Inr (meta, hasMetadata))"

definition extract_kernel ::
  "NVVMMetadataField \<Rightarrow> LLVMFuncOp \<Rightarrow> NVVMMetadata \<times> bool \<Rightarrow> NVVMMetadata \<times> bool" where
  "extract_kernel fld fop s =
     (case s of (meta, hasMetadata) \<Rightarrow>
        if hasAttr fop (Kernel fld) then (meta\<lparr>is_kernel := True\<rparr>, True)
        else (meta, hasMetadata))"

definition extract_op ::
  "NVVMMetadataField \<Rightarrow> LLVMFuncOp \<Rightarrow> NVVMMetadata DenseMap \<Rightarrow> failure + NVVMMetadata DenseMap" where
  "extract_op fld fop dic =
     (case extract_maxntid fld fop (NVVMMetadata_init, False) of
        Inl e \<Rightarrow> Inl e
      | Inr s \<Rightarrow>
          (case extract_kernel fld fop s of (meta, hasMetadata) \<Rightarrow>
             Inr (if hasMetadata then try_emplace dic (sym_name fop) meta else dic)))"

fun extract_ops ::
  "NVVMMetadataField \<Rightarrow> LLVMFuncOp list \<Rightarrow> NVVMMetadata DenseMap \<Rightarrow> failure + NVVMMetadata DenseMap" where
  "extract_ops fld [] dic = Inr dic"
| "extract_ops fld (fop # ops) dic =
     (case extract_op fld fop dic of
        Inl e \<Rightarrow> Inl e
      | Inr dic' \<Rightarrow> extract_ops fld ops dic')"

definition extractNVVMMetadata ::
  "NVVMMetadataField \<Rightarrow> ModuleOp \<Rightarrow> NVVMMetadata DenseMap \<Rightarrow> failure + NVVMMetadata DenseMap" where
  "extractNVVMMetadata fld module dic = extract_ops fld (getOps_LLVMFuncOp module) dic"

subsection \<open>TranslateLLVMToLLVMIR\<close>

text \<open>
  The library routines the driver calls: \<^verbatim>\<open>mlir::translateModuleToLLVMIR\<close> (no module
  on failure), \<^verbatim>\<open>mlir::ExecutionEngine::setupTargetTriple\<close> (changes the module in
  place; its result is not looked at) and the transformer made by
  \<^verbatim>\<open>mlir::makeOptimizingTransformer\<close> (changes the module in place and reports an error,
  here by its description, or success). Registering the dialect translation and
  \<^verbatim>\<open>init_llvm\<close> act on the contexts and the process only.
\<close>

record external =
  translateModuleToLLVMIR :: "ModuleOp \<Rightarrow> llvm_module option"
  setupTargetTriple :: "llvm_module \<Rightarrow> llvm_module"
  optPipeline :: "llvm_module \<Rightarrow> string option \<times> llvm_module"

text \<open>The loop over the functions of the optimised module (the last loop of the driver).\<close>

definition amend_function :: "NVVMMetadata DenseMap \<Rightarrow> llvm_function \<Rightarrow> llvm_module \<Rightarrow> llvm_module" where
  "amend_function nvvmMetadata func m =
     (case DenseMap_find nvvmMetadata (fname func) of
        None \<Rightarrow> m
      | Some meta \<Rightarrow> amendLLVMFunc func meta m)"

definition amend_functions :: "NVVMMetadata DenseMap \<Rightarrow> llvm_module \<Rightarrow> llvm_module" where
  "amend_functions nvvmMetadata llvmModule =
     fold (amend_function nvvmMetadata) (functions' llvmModule) llvmModule"

text \<open>
  The result of a call: what was returned (\<open>Inr None\<close> is the null pointer, \<open>Inl\<close> a run
  that stopped without returning) and what the call wrote to \<^verbatim>\<open>llvm::errs()\<close>.
\<close>

record translation =
  returned :: "failure + llvm_module option"
  errs :: string

definition TranslateLLVMToLLVMIR :: "NVVMMetadataField \<Rightarrow> external \<Rightarrow> ModuleOp \<Rightarrow> translation" where
  "TranslateLLVMToLLVMIR fld ext module =
     (case extractNVVMMetadata fld module [] of
        Inl e \<Rightarrow> \<lparr>returned = Inl e, errs = []\<rparr>
      | Inr nvvmMetadata \<Rightarrow>
          (case translateModuleToLLVMIR ext module of
             None \<Rightarrow> \<lparr>returned = Inr None, errs = ''Failed to emit LLVM IR\<newline>''\<rparr>
           | Some llvmModule \<Rightarrow>
               (case optPipeline ext (setupTargetTriple ext llvmModule) of
                  (Some err, _) \<Rightarrow>
                    \<lparr>returned = Inr None,
                     errs = ''Failed to optimize LLVM IR '' @ err @ ''\<newline>''\<rparr>
                | (None, optimized) \<Rightarrow>
                    \<lparr>returned = Inr (Some (amend_functions nvvmMetadata optimized)),
                     errs = []\<rparr>)))"

subsection \<open>What the two loops compute\<close>

text \<open>
  The nodes one call of \<^verbatim>\<open>amendLLVMFunc\<close> adds, and the nodes the driver's last loop adds
  for one function of the optimised module.
\<close>

definition nodes_of :: "llvm_function \<Rightarrow> NVVMMetadata \<Rightarrow> mdnode list" where
  "nodes_of func metadata =
     (if 0 <s maxntidx metadata then [maxntidx_node func (maxntidx metadata)] else []) @
     (if is_kernel metadata then [kernel_node func] else [])"

definition nodes_for :: "NVVMMetadata DenseMap \<Rightarrow> llvm_function \<Rightarrow> mdnode list" where
  "nodes_for dic func =
     (case DenseMap_find dic (fname func) of None \<Rightarrow> [] | Some meta \<Rightarrow> nodes_of func meta)"

text \<open>
  A function operation is annotated when it has one of the two attributes; its
  thread-limit attribute is malformed when it is there and is not an integer attribute;
  \<open>meta_of\<close> is the record the extraction builds for a function operation.
\<close>

definition annotated :: "NVVMMetadataField \<Rightarrow> LLVMFuncOp \<Rightarrow> bool" where
  "annotated fld fop = (hasAttr fop (MaxNTid fld) \<or> hasAttr fop (Kernel fld))"

definition malformed :: "NVVMMetadataField \<Rightarrow> LLVMFuncOp \<Rightarrow> bool" where
  "malformed fld fop =
     (case getAttr fop (MaxNTid fld) of
        None \<Rightarrow> False
      | Some attr \<Rightarrow> dyn_cast_IntegerAttr attr = None)"

definition meta_of :: "NVVMMetadataField \<Rightarrow> LLVMFuncOp \<Rightarrow> NVVMMetadata" where
  "meta_of fld fop =
     \<lparr>maxntidx = (case getAttr fop (MaxNTid fld) of
                    Some (IntegerAttr v) \<Rightarrow> ucast v
                  | _ \<Rightarrow> - 1),
      is_kernel = hasAttr fop (Kernel fld)\<rparr>"

subsection \<open>Example inputs\<close>

text \<open>
  Attribute names, a source module with the annotated function \<^verbatim>\<open>kernel0\<close> (entry point,
  limit 256) and the plain function \<^verbatim>\<open>helper\<close>, and library routines: a translator that
  makes one LLVM function per function operation, one that fails, an optimiser that
  changes nothing, one that reports an error, and one that removes \<^verbatim>\<open>helper\<close>.
\<close>

definition example_fields :: NVVMMetadataField where
  "example_fields = \<lparr>MaxNTid = ''nvvm.maxntid'', Kernel = ''nvvm.kernel''\<rparr>"

definition kernel0 :: LLVMFuncOp where
  "kernel0 = \<lparr>sym_name = ''kernel0'',
              attrs = [(''nvvm.kernel'', UnitAttr), (''nvvm.maxntid'', IntegerAttr 256)]\<rparr>"

definition helper :: LLVMFuncOp where
  "helper = \<lparr>sym_name = ''helper'', attrs = [(''linkage'', StringAttr ''internal'')]\<rparr>"

definition example_module :: ModuleOp where
  "example_module = \<lparr>body = [OtherOp ''llvm.mlir.global'', FuncOp helper, FuncOp kernel0]\<rparr>"

definition translate_each :: "ModuleOp \<Rightarrow> llvm_module option" where
  "translate_each m =
     Some \<lparr>functions' = map (\<lambda>fop. \<lparr>fname = sym_name fop\<rparr>) (getOps_LLVMFuncOp m),
           named_metadata = Map.empty\<rparr>"

definition plain_external :: external where
  "plain_external =
     \<lparr>translateModuleToLLVMIR = translate_each,
      setupTargetTriple = (\<lambda>m. m),
      optPipeline = (\<lambda>m. (None, m))\<rparr>"


definition failing_optimizer :: external where
  "failing_optimizer = plain_external\<lparr>optPipeline := (\<lambda>m. (Some ''pass failed'', m))\<rparr>"

definition dropping_optimizer :: external where
  "dropping_optimizer =
     plain_external\<lparr>optPipeline :=
       (\<lambda>m. (None, m\<lparr>functions' := filter (\<lambda>f. fname f \<noteq> ''helper'') (functions' m)\<rparr>))\<rparr>"

text \<open>
  A module that defines the name \<^verbatim>\<open>kernel0\<close> twice, and a module with a function whose
  thread-limit attribute is a string attribute.
\<close>

definition twice_module :: ModuleOp where
  "twice_module =
     \<lparr>body = [FuncOp kernel0,
              FuncOp (kernel0\<lparr>attrs := [(''nvvm.maxntid'', IntegerAttr 128)]\<rparr>)]\<rparr>"

definition kernel1 :: LLVMFuncOp where
  "kernel1 = \<lparr>sym_name = ''kernel1'', attrs = [(''nvvm.maxntid'', StringAttr ''256'')]\<rparr>"

definition malformed_module :: ModuleOp where
  "malformed_module = \<lparr>body = [FuncOp kernel0, FuncOp kernel1]\<rparr>"

text \<open>
  A side table with the limit 0, an LLVM module with the one function \<^verbatim>\<open>kernel0\<close>, a
  function operation whose limit \<open>2\<^sup>3\<^sup>2 + 5\<close> does not fit 32 bits and one with the
  limit \<open>2\<^sup>3\<^sup>1\<close>, a module whose
  \<^verbatim>\<open>helper\<close> has a limit, and a module whose \<^verbatim>\<open>kernel0\<close> has the limit 0.
\<close>

definition zero_limit_table :: "NVVMMetadata DenseMap" where
  "zero_limit_table = [(''kernel0'', \<lparr>maxntidx = 0, is_kernel = False\<rparr>)]"

definition kernel0_only :: llvm_module where
  "kernel0_only = \<lparr>functions' = [\<lparr>fname = ''kernel0''\<rparr>], named_metadata = Map.empty\<rparr>"

definition wide_kernel :: LLVMFuncOp where
  "wide_kernel = \<lparr>sym_name = ''wide'', attrs = [(''nvvm.maxntid'', IntegerAttr 4294967301)]\<rparr>"

definition msb_kernel :: LLVMFuncOp where
  "msb_kernel = \<lparr>sym_name = ''wide'', attrs = [(''nvvm.maxntid'', IntegerAttr 2147483648)]\<rparr>"

definition annotated_helper :: LLVMFuncOp where
  "annotated_helper = \<lparr>sym_name = ''helper'', attrs = [(''nvvm.maxntid'', IntegerAttr 128)]\<rparr>"

definition dead_helper_module :: ModuleOp where
  "dead_helper_module = \<lparr>body = [FuncOp annotated_helper, FuncOp kernel0]\<rparr>"

definition zero_kernel :: LLVMFuncOp where
  "zero_kernel = \<lparr>sym_name = ''kernel0'',
              attrs = [(''nvvm.kernel'', UnitAttr), (''nvvm.maxntid'', IntegerAttr 0)]\<rparr>"

definition zero_module :: ModuleOp where
  "zero_module = \<lparr>body = [FuncOp zero_kernel]\<rparr>"

section \<open>Properties\<close>

subsection \<open>Integer conversions\<close>

lemma APInt_32_int_to_uint64: "APInt_32 (int_to_uint64 x) = x"
  unfolding APInt_32_def int_to_uint64_def
  by (rule bit_word_eqI) (simp add: bit_simps)

lemma ucast_eq_scast_narrow: "(ucast (v :: 64 word) :: 32 word) = scast v"
  by (rule bit_word_eqI) (simp add: bit_simps)

lemma sint_narrow:
  "sint (ucast (v :: 64 word) :: 32 word) = (sint v + 2 ^ 31) mod 2 ^ 32 - 2 ^ 31"
  by (simp add: ucast_eq_scast_narrow signed_scast_eq signed_take_bit_eq_take_bit_shift
      take_bit_eq_mod)

lemma uint_narrow: "uint (ucast (v :: 64 word) :: 32 word) = sint v mod 2 ^ 32"
proof -
  have "uint (ucast v :: 32 word) = uint (word_of_int (sint v) :: 32 word)"
    by (simp only: ucast_eq_scast_narrow scast_eq)
  also have "\<dots> = sint v mod 2 ^ LENGTH(32)"
    by (rule uint_word_of_int)
  finally show ?thesis by simp
qed

lemma sint_narrow_id:
  "- (2 ^ 31) \<le> sint v \<Longrightarrow> sint v < 2 ^ 31 \<Longrightarrow> sint (ucast (v :: 64 word) :: 32 word) = sint v"
  by (simp add: sint_narrow)

lemma sint_narrow_neq:
  "sint v < - (2 ^ 31) \<or> 2 ^ 31 \<le> sint v \<Longrightarrow> sint (ucast (v :: 64 word) :: 32 word) \<noteq> sint v"
  using sint_ge [of "ucast v :: 32 word"] sint_lt [of "ucast v :: 32 word"] by auto

subsection \<open>Adding metadata nodes\<close>

lemma getNamedMetadata_addOperand:
  "getNamedMetadata (addOperand nm node (getOrInsertNamedMetadata nm m)) k =
     (if k = nm then getNamedMetadata m nm @ [node] else getNamedMetadata m k)"
  by (simp add: getNamedMetadata_def addOperand_def getOrInsertNamedMetadata_def
      split: option.splits)

lemma functions_addOperand:
  "functions' (addOperand nm node (getOrInsertNamedMetadata nm m)) = functions' m"
  by (simp add: addOperand_def getOrInsertNamedMetadata_def split: option.splits)

lemma getNamedMetadata_amendLLVMFunc:
  "getNamedMetadata (amendLLVMFunc func metadata m) k =
     (if k = ''nvvm.annotations'' then getNamedMetadata m k @ nodes_of func metadata
      else getNamedMetadata m k)"
  by (simp add: amendLLVMFunc_def Let_def nodes_of_def getNamedMetadata_addOperand
      APInt_32_int_to_uint64)

lemma functions_amendLLVMFunc: "functions' (amendLLVMFunc func metadata m) = functions' m"
  by (simp add: amendLLVMFunc_def Let_def functions_addOperand)

lemma getNamedMetadata_amend_function:
  "getNamedMetadata (amend_function dic func m) k =
     (if k = ''nvvm.annotations'' then getNamedMetadata m k @ nodes_for dic func
      else getNamedMetadata m k)"
  by (simp add: amend_function_def nodes_for_def getNamedMetadata_amendLLVMFunc
      split: option.splits)

lemma functions_amend_function: "functions' (amend_function dic func m) = functions' m"
  by (simp add: amend_function_def functions_amendLLVMFunc split: option.splits)

lemma getNamedMetadata_fold_amend:
  "getNamedMetadata (fold (amend_function dic) fs m) k =
     (if k = ''nvvm.annotations'' then getNamedMetadata m k @ concat (map (nodes_for dic) fs)
      else getNamedMetadata m k)"
  by (induction fs arbitrary: m) (simp_all add: getNamedMetadata_amend_function)

lemma functions_fold_amend: "functions' (fold (amend_function dic) fs m) = functions' m"
  by (induction fs arbitrary: m) (simp_all add: functions_amend_function)

lemma getNamedMetadata_amend_functions:
  "getNamedMetadata (amend_functions dic m) k =
     (if k = ''nvvm.annotations''
      then getNamedMetadata m k @ concat (map (nodes_for dic) (functions' m))
      else getNamedMetadata m k)"
  by (simp add: amend_functions_def getNamedMetadata_fold_amend)

lemma functions_amend_functions: "functions' (amend_functions dic m) = functions' m"
  by (simp add: amend_functions_def functions_fold_amend)

subsection \<open>Building the side table\<close>

lemma extract_op_eq:
  "extract_op fld fop dic =
     (if malformed fld fop then Inl NullAttribute
      else Inr (if annotated fld fop then try_emplace dic (sym_name fop) (meta_of fld fop)
                else dic))"
proof (cases "getAttr fop (MaxNTid fld)")
  case None
  then show ?thesis
    by (simp add: extract_op_def extract_maxntid_def extract_kernel_def hasAttr_def
        malformed_def annotated_def meta_of_def NVVMMetadata_init_def)
next
  case (Some attr)
  then show ?thesis
    by (cases attr)
      (simp_all add: extract_op_def extract_maxntid_def extract_kernel_def hasAttr_def
        malformed_def annotated_def meta_of_def NVVMMetadata_init_def)
qed

lemma extract_ops_malformed:
  "\<exists>fop \<in> set ops. malformed fld fop \<Longrightarrow> extract_ops fld ops dic = Inl NullAttribute"
  by (induction ops arbitrary: dic) (auto simp: extract_op_eq)

lemma extract_ops_wellformed:
  "\<forall>fop \<in> set ops. \<not> malformed fld fop \<Longrightarrow> \<exists>dic'. extract_ops fld ops dic = Inr dic'"
  by (induction ops arbitrary: dic) (auto simp: extract_op_eq)

lemma distinct_try_emplace:
  "distinct (map fst dic) \<Longrightarrow> distinct (map fst (try_emplace dic k v))"
  by (auto simp: try_emplace_def DenseMap_find_def map_of_eq_None_iff split: option.splits)

lemma extract_ops_distinct:
  "extract_ops fld ops dic = Inr dic' \<Longrightarrow> distinct (map fst dic) \<Longrightarrow> distinct (map fst dic')"
proof (induction ops arbitrary: dic)
  case Nil
  then show ?case by simp
next
  case (Cons fop ops)
  then show ?case
    by (auto simp: extract_op_eq distinct_try_emplace split: if_splits)
qed

lemma find_try_emplace:
  "DenseMap_find (try_emplace dic k v) n =
     (case DenseMap_find dic n of Some r \<Rightarrow> Some r | None \<Rightarrow> if n = k then Some v else None)"
  by (auto simp: try_emplace_def DenseMap_find_def map_add_def split: option.splits)

lemma extract_ops_find:
  "extract_ops fld ops dic = Inr dic' \<Longrightarrow>
   DenseMap_find dic' n =
     (case DenseMap_find dic n of
        Some r \<Rightarrow> Some r
      | None \<Rightarrow> map_option (meta_of fld)
                 (List.find (\<lambda>fop. sym_name fop = n \<and> annotated fld fop) ops))"
proof (induction ops arbitrary: dic)
  case Nil
  then show ?case by (simp split: option.splits)
next
  case (Cons fop ops)
  then show ?case
    by (auto simp: extract_op_eq find_try_emplace split: if_splits option.splits)
qed

subsection \<open>The driver\<close>

lemma TranslateLLVMToLLVMIR_Some:
  assumes "returned (TranslateLLVMToLLVMIR fld ext module) = Inr (Some M)"
  shows "\<exists>nvvmMetadata llvmModule optimized.
     extractNVVMMetadata fld module [] = Inr nvvmMetadata \<and>
     translateModuleToLLVMIR ext module = Some llvmModule \<and>
     optPipeline ext (setupTargetTriple ext llvmModule) = (None, optimized) \<and>
     M = amend_functions nvvmMetadata optimized"
proof (cases "extractNVVMMetadata fld module []")
  case (Inl e)
  with assms show ?thesis by (simp add: TranslateLLVMToLLVMIR_def)
next
  case (Inr nvvmMetadata)
  note e = this
  show ?thesis
  proof (cases "translateModuleToLLVMIR ext module")
    case None
    with assms e show ?thesis by (simp add: TranslateLLVMToLLVMIR_def)
  next
    case (Some llvmModule)
    note t = this
    obtain r optimized where p: "optPipeline ext (setupTargetTriple ext llvmModule) = (r, optimized)"
      by (cases "optPipeline ext (setupTargetTriple ext llvmModule)")
    show ?thesis
    proof (cases r)
      case None
      with assms e t p have "M = amend_functions nvvmMetadata optimized"
        by (simp add: TranslateLLVMToLLVMIR_def)
      with e t p None show ?thesis by simp
    next
      case (Some err)
      with assms e t p show ?thesis by (simp add: TranslateLLVMToLLVMIR_def)
    qed
  qed
qed

lemma find_unique:
  assumes "fop \<in> set ops" and "P fop" and "\<forall>g \<in> set ops. P g \<longrightarrow> g = fop"
  shows "List.find P ops = Some fop"
  using assms
proof (induction ops)
  case Nil
  then show ?case by simp
next
  case (Cons a ops)
  show ?case
  proof (cases "P a")
    case True
    with Cons.prems(3) have "a = fop" by simp
    with True show ?thesis by simp
  next
    case False
    with Cons.prems(1,2) have a: "fop \<in> set ops" by auto
    from Cons.prems(3) have b: "\<forall>g \<in> set ops. P g \<longrightarrow> g = fop" by simp
    from Cons.IH [OF a Cons.prems(2) b] False show ?thesis by simp
  qed
qed

lemma nodes_for_cases:
  assumes "node \<in> set (nodes_for dic func)"
  shows "\<exists>meta. DenseMap_find dic (fname func) = Some meta \<and>
     (node = maxntidx_node func (maxntidx meta) \<and> 0 <s maxntidx meta \<or>
      node = kernel_node func \<and> is_kernel meta)"
proof (cases "DenseMap_find dic (fname func)")
  case None
  with assms show ?thesis by (simp add: nodes_for_def)
next
  case (Some meta)
  with assms show ?thesis by (auto simp: nodes_for_def nodes_of_def split: if_splits)
qed

subsection \<open>The examples, evaluated\<close>

lemma extract_example_module:
  "extractNVVMMetadata example_fields example_module [] =
     Inr [(''kernel0'', \<lparr>maxntidx = 256, is_kernel = True\<rparr>)]"
  by (simp add: extractNVVMMetadata_def getOps_LLVMFuncOp_def example_module_def
      example_fields_def kernel0_def helper_def extract_op_def extract_maxntid_def
      extract_kernel_def hasAttr_def getAttr_def NVVMMetadata_init_def try_emplace_def
      DenseMap_find_def)

lemma extract_twice_module:
  "extractNVVMMetadata example_fields twice_module [] =
     Inr [(''kernel0'', \<lparr>maxntidx = 256, is_kernel = True\<rparr>)]"
  by (simp add: extractNVVMMetadata_def getOps_LLVMFuncOp_def twice_module_def
      example_fields_def kernel0_def extract_op_def extract_maxntid_def
      extract_kernel_def hasAttr_def getAttr_def NVVMMetadata_init_def try_emplace_def
      DenseMap_find_def)

lemma translate_example_module:
  "translate_each example_module =
     Some \<lparr>functions' = [\<lparr>fname = ''helper''\<rparr>, \<lparr>fname = ''kernel0''\<rparr>],
           named_metadata = Map.empty\<rparr>"
  by (simp add: translate_each_def getOps_LLVMFuncOp_def example_module_def helper_def
      kernel0_def)

lemma extract_malformed_module:
  "extractNVVMMetadata example_fields malformed_module [] = Inl NullAttribute"
  by (simp add: extractNVVMMetadata_def getOps_LLVMFuncOp_def malformed_module_def
      example_fields_def kernel0_def kernel1_def extract_op_def extract_maxntid_def
      extract_kernel_def hasAttr_def getAttr_def NVVMMetadata_init_def try_emplace_def
      DenseMap_find_def)

lemma getNamedMetadata_kernel0_only: "getNamedMetadata kernel0_only nm = []"
  by (simp add: getNamedMetadata_def kernel0_only_def)

lemma functions_kernel0_only: "functions' kernel0_only = [\<lparr>fname = ''kernel0''\<rparr>]"
  by (simp add: kernel0_only_def)

lemma extract_dead_helper_module:
  "extractNVVMMetadata example_fields dead_helper_module [] =
     Inr [(''helper'', \<lparr>maxntidx = 128, is_kernel = False\<rparr>),
          (''kernel0'', \<lparr>maxntidx = 256, is_kernel = True\<rparr>)]"
  by (simp add: extractNVVMMetadata_def getOps_LLVMFuncOp_def dead_helper_module_def
      example_fields_def kernel0_def annotated_helper_def extract_op_def extract_maxntid_def
      extract_kernel_def hasAttr_def getAttr_def NVVMMetadata_init_def try_emplace_def
      DenseMap_find_def)

lemma extract_zero_module:
  "extractNVVMMetadata example_fields zero_module [] =
     Inr [(''kernel0'', \<lparr>maxntidx = 0, is_kernel = True\<rparr>)]"
  by (simp add: extractNVVMMetadata_def getOps_LLVMFuncOp_def zero_module_def
      example_fields_def zero_kernel_def extract_op_def extract_maxntid_def
      extract_kernel_def hasAttr_def getAttr_def NVVMMetadata_init_def try_emplace_def
      DenseMap_find_def)

lemma translate_dead_helper_module:
  "translate_each dead_helper_module =
     Some \<lparr>functions' = [\<lparr>fname = ''helper''\<rparr>, \<lparr>fname = ''kernel0''\<rparr>],
           named_metadata = Map.empty\<rparr>"
  by (simp add: translate_each_def getOps_LLVMFuncOp_def dead_helper_module_def
      annotated_helper_def kernel0_def)

lemma translate_zero_module: "translate_each zero_module = Some kernel0_only"
  by (simp add: translate_each_def getOps_LLVMFuncOp_def zero_module_def
      zero_kernel_def kernel0_only_def)

lemma run_dead_helper_module:
  "TranslateLLVMToLLVMIR example_fields dropping_optimizer dead_helper_module =
     \<lparr>returned = Inr (Some (amend_functions
         [(''helper'', \<lparr>maxntidx = 128, is_kernel = False\<rparr>),
          (''kernel0'', \<lparr>maxntidx = 256, is_kernel = True\<rparr>)] kernel0_only)),
      errs = []\<rparr>"
  by (simp add: TranslateLLVMToLLVMIR_def extract_dead_helper_module dropping_optimizer_def
      plain_external_def translate_dead_helper_module kernel0_only_def)

lemma run_example_module:
  "TranslateLLVMToLLVMIR example_fields dropping_optimizer example_module =
     \<lparr>returned = Inr (Some (amend_functions
         [(''kernel0'', \<lparr>maxntidx = 256, is_kernel = True\<rparr>)] kernel0_only)),
      errs = []\<rparr>"
  by (simp add: TranslateLLVMToLLVMIR_def extract_example_module dropping_optimizer_def
      plain_external_def translate_example_module kernel0_only_def)

lemma run_zero_module:
  "TranslateLLVMToLLVMIR example_fields plain_external zero_module =
     \<lparr>returned = Inr (Some (amend_functions
         [(''kernel0'', \<lparr>maxntidx = 0, is_kernel = True\<rparr>)] kernel0_only)),
      errs = []\<rparr>"
  by (simp add: TranslateLLVMToLLVMIR_def extract_zero_module
      plain_external_def translate_zero_module)

section \<open>The claims\<close>

text \<open>
  C7. Re-attachment only adds: whatever the side table and the module, each named
  metadata collection of the module after the driver's last loop, the collection
  \<^verbatim>\<open>nvvm.annotations\<close> among them, is the collection before it followed by the added
  nodes. Every entry that was there stays, at its place and as it was.
\<close>

theorem reattachment_additive:
  "\<exists>added. getNamedMetadata (amend_functions dic m) nm = getNamedMetadata m nm @ added"
  by (simp add: getNamedMetadata_amend_functions)

text \<open>
  C8. The side table that extraction builds, starting from the empty table as the driver
  does, has at most one record for each function name: the keys of its buckets are
  pairwise distinct, also when the module defines a name more than once.
\<close>

theorem side_table_one_record_per_name:
  "extractNVVMMetadata fld module [] = Inr dic \<Longrightarrow> distinct (map fst dic)"
  unfolding extractNVVMMetadata_def by (drule extract_ops_distinct) simp_all

theorem side_table_one_record_per_name_witness:
  "extractNVVMMetadata example_fields twice_module [] =
     Inr [(''kernel0'', \<lparr>maxntidx = 256, is_kernel = True\<rparr>)] \<and>
   distinct (map fst [(''kernel0'', \<lparr>maxntidx = 256 :: 32 word, is_kernel = True\<rparr>)])"
  using side_table_one_record_per_name [OF extract_twice_module] extract_twice_module
  by simp

text \<open>
  C9. A function operation of the module that has neither the thread-limit attribute nor
  the entry-point attribute puts no record in the side table: its round of the loop
  leaves the table as it is, and when extraction is finished the table has no record for
  its name, as long as no function operation of that name has one of the two attributes.
\<close>

theorem unannotated_function_not_recorded:
  assumes "fop \<in> set (getOps_LLVMFuncOp module)"
    and "\<not> hasAttr fop (MaxNTid fld)" and "\<not> hasAttr fop (Kernel fld)"
  shows "extract_op fld fop dic = Inr dic \<and>
         (extractNVVMMetadata fld module [] = Inr dic' \<and>
          (\<forall>g \<in> set (getOps_LLVMFuncOp module).
             sym_name g = sym_name fop \<longrightarrow>
               \<not> hasAttr g (MaxNTid fld) \<and> \<not> hasAttr g (Kernel fld))
          \<longrightarrow> DenseMap_find dic' (sym_name fop) = None)"
proof (intro conjI impI)
  show "extract_op fld fop dic = Inr dic"
    using assms(2,3) by (simp add: extract_op_eq malformed_def annotated_def hasAttr_def)
next
  assume h: "extractNVVMMetadata fld module [] = Inr dic' \<and>
    (\<forall>g \<in> set (getOps_LLVMFuncOp module).
       sym_name g = sym_name fop \<longrightarrow> \<not> hasAttr g (MaxNTid fld) \<and> \<not> hasAttr g (Kernel fld))"
  then have none: "List.find (\<lambda>g. sym_name g = sym_name fop \<and> annotated fld g)
      (getOps_LLVMFuncOp module) = None"
    by (auto simp: find_None_iff annotated_def)
  from h have "extract_ops fld (getOps_LLVMFuncOp module) [] = Inr dic'"
    by (simp add: extractNVVMMetadata_def)
  from extract_ops_find [OF this, of "sym_name fop"] none
  show "DenseMap_find dic' (sym_name fop) = None"
    by (simp add: DenseMap_find_def)
qed

theorem unannotated_function_not_recorded_witness:
  "helper \<in> set (getOps_LLVMFuncOp example_module) \<and>
   \<not> hasAttr helper (MaxNTid example_fields) \<and> \<not> hasAttr helper (Kernel example_fields) \<and>
   extract_op example_fields helper [] = Inr [] \<and>
   extractNVVMMetadata example_fields example_module [] =
     Inr [(''kernel0'', \<lparr>maxntidx = 256, is_kernel = True\<rparr>)] \<and>
   DenseMap_find [(''kernel0'', \<lparr>maxntidx = 256 :: 32 word, is_kernel = True\<rparr>)]
     (sym_name helper) = None"
proof -
  have a: "helper \<in> set (getOps_LLVMFuncOp example_module)"
    by (simp add: getOps_LLVMFuncOp_def example_module_def)
  have b: "\<not> hasAttr helper (MaxNTid example_fields)"
    by (simp add: hasAttr_def getAttr_def helper_def example_fields_def)
  have c: "\<not> hasAttr helper (Kernel example_fields)"
    by (simp add: hasAttr_def getAttr_def helper_def example_fields_def)
  have d: "\<forall>g \<in> set (getOps_LLVMFuncOp example_module).
             sym_name g = sym_name helper \<longrightarrow>
               \<not> hasAttr g (MaxNTid example_fields) \<and> \<not> hasAttr g (Kernel example_fields)"
    by (simp add: getOps_LLVMFuncOp_def example_module_def hasAttr_def getAttr_def
        helper_def kernel0_def example_fields_def)
  from unannotated_function_not_recorded [OF a b c, of "[]"
      "[(''kernel0'', \<lparr>maxntidx = 256, is_kernel = True\<rparr>)]"]
    extract_example_module a b c d
  show ?thesis by simp
qed

text \<open>
  C6. When extraction and translation have succeeded and the optimisation pipeline reports
  an error, the driver returns the null pointer, not the module the pipeline worked on,
  and what it wrote to the error stream is \<^verbatim>\<open>Failed to optimize LLVM IR\<close> followed by the
  description of the error and a newline.
\<close>

theorem optimization_failure_propagates:
  assumes "extractNVVMMetadata fld module [] = Inr nvvmMetadata"
    and "translateModuleToLLVMIR ext module = Some llvmModule"
    and "optPipeline ext (setupTargetTriple ext llvmModule) = (Some err, partly)"
  shows "TranslateLLVMToLLVMIR fld ext module =
           \<lparr>returned = Inr None,
            errs = ''Failed to optimize LLVM IR '' @ err @ ''\<newline>''\<rparr>"
  using assms by (simp add: TranslateLLVMToLLVMIR_def)

theorem optimization_failure_propagates_witness:
  "extractNVVMMetadata example_fields example_module [] =
     Inr [(''kernel0'', \<lparr>maxntidx = 256, is_kernel = True\<rparr>)] \<and>
   translateModuleToLLVMIR failing_optimizer example_module =
     Some \<lparr>functions' = [\<lparr>fname = ''helper''\<rparr>, \<lparr>fname = ''kernel0''\<rparr>],
           named_metadata = Map.empty\<rparr> \<and>
   optPipeline failing_optimizer
     (setupTargetTriple failing_optimizer
        \<lparr>functions' = [\<lparr>fname = ''helper''\<rparr>, \<lparr>fname = ''kernel0''\<rparr>],
         named_metadata = Map.empty\<rparr>) =
     (Some ''pass failed'',
      \<lparr>functions' = [\<lparr>fname = ''helper''\<rparr>, \<lparr>fname = ''kernel0''\<rparr>],
       named_metadata = Map.empty\<rparr>) \<and>
   TranslateLLVMToLLVMIR example_fields failing_optimizer example_module =
     \<lparr>returned = Inr None, errs = ''Failed to optimize LLVM IR pass failed\<newline>''\<rparr>"
proof -
  have t: "translateModuleToLLVMIR failing_optimizer example_module =
     Some \<lparr>functions' = [\<lparr>fname = ''helper''\<rparr>, \<lparr>fname = ''kernel0''\<rparr>],
           named_metadata = Map.empty\<rparr>"
    by (simp add: failing_optimizer_def plain_external_def translate_example_module)
  have p: "optPipeline failing_optimizer
     (setupTargetTriple failing_optimizer
        \<lparr>functions' = [\<lparr>fname = ''helper''\<rparr>, \<lparr>fname = ''kernel0''\<rparr>],
         named_metadata = Map.empty\<rparr>) =
     (Some ''pass failed'',
      \<lparr>functions' = [\<lparr>fname = ''helper''\<rparr>, \<lparr>fname = ''kernel0''\<rparr>],
       named_metadata = Map.empty\<rparr>)"
    by (simp add: failing_optimizer_def plain_external_def)
  from optimization_failure_propagates [OF extract_example_module t p]
    extract_example_module t p
  show ?thesis by simp
qed



text \<open>
  C4. The code does not do what the claim asks for. In the module below the function
  \<^verbatim>\<open>kernel1\<close> has the thread-limit attribute as a string attribute: the attribute is
  there, the cast to an integer attribute gives the null attribute, and \<^verbatim>\<open>getInt()\<close> is
  called on it without a test. Extraction does not come to an end with a side table; it
  stops at the null attribute, and no line of it writes a message.
\<close>

theorem malformed_limit_reads_null_attribute:
  "kernel1 \<in> set (getOps_LLVMFuncOp malformed_module) \<and>
   hasAttr kernel1 (MaxNTid example_fields) \<and>
   getAttr kernel1 (MaxNTid example_fields) = Some (StringAttr ''256'') \<and>
   dyn_cast_IntegerAttr (StringAttr ''256'') = None \<and>
   extractNVVMMetadata example_fields malformed_module [] = Inl NullAttribute"
proof (intro conjI)
  show "kernel1 \<in> set (getOps_LLVMFuncOp malformed_module)"
    by (simp add: getOps_LLVMFuncOp_def malformed_module_def)
  show "hasAttr kernel1 (MaxNTid example_fields)"
    by (simp add: hasAttr_def getAttr_def kernel1_def example_fields_def)
  show "getAttr kernel1 (MaxNTid example_fields) = Some (StringAttr ''256'')"
    by (simp add: getAttr_def kernel1_def example_fields_def)
  show "dyn_cast_IntegerAttr (StringAttr ''256'') = None"
    by simp
  show "extractNVVMMetadata example_fields malformed_module [] = Inl NullAttribute"
    by (rule extract_malformed_module)
qed

text \<open>
  C3, as stated, does not hold: a record whose limit is 0, which is not the unset value
  -1, gives no \<^verbatim>\<open>maxntidx\<close> node for the function of its name.
\<close>

theorem zero_limit_counterexample:
  "DenseMap_find zero_limit_table ''kernel0'' = Some \<lparr>maxntidx = 0, is_kernel = False\<rparr> \<and>
   (0 :: 32 word) \<noteq> - 1 \<and>
   \<lparr>fname = ''kernel0''\<rparr> \<in> set (functions' kernel0_only) \<and>
   getNamedMetadata (amend_functions zero_limit_table kernel0_only) ''nvvm.annotations'' = []"
  by (simp add: getNamedMetadata_amend_functions nodes_for_def nodes_of_def
      zero_limit_table_def DenseMap_find_def getNamedMetadata_kernel0_only
      functions_kernel0_only)

text \<open>
  C3, amended. For a function of the output module whose name has a record in the side
  table, the re-attacher appends one \<^verbatim>\<open>maxntidx\<close> node, with the record's limit, when the
  limit is greater than 0, and one \<^verbatim>\<open>kernel\<close> node when the entry-point flag is set, in
  this order and nothing else; a limit of 0 or below gives no \<^verbatim>\<open>maxntidx\<close> node. This is
  what the round of the loop for the function adds, and these nodes are in the collection
  when the loop is finished.
\<close>

theorem reattachment_nodes_per_function:
  assumes "func \<in> set (functions' m)"
    and "DenseMap_find dic (fname func) = Some meta"
  shows "getNamedMetadata (amend_function dic func m') ''nvvm.annotations'' =
           getNamedMetadata m' ''nvvm.annotations'' @
           (if 0 <s maxntidx meta then [maxntidx_node func (maxntidx meta)] else []) @
           (if is_kernel meta then [kernel_node func] else []) \<and>
         (\<exists>before after.
            getNamedMetadata (amend_functions dic m) ''nvvm.annotations'' =
              getNamedMetadata m ''nvvm.annotations'' @ before @
              (if 0 <s maxntidx meta then [maxntidx_node func (maxntidx meta)] else []) @
              (if is_kernel meta then [kernel_node func] else []) @ after)"
proof
  have n: "nodes_for dic func =
      (if 0 <s maxntidx meta then [maxntidx_node func (maxntidx meta)] else []) @
      (if is_kernel meta then [kernel_node func] else [])"
    using assms(2) by (simp add: nodes_for_def nodes_of_def)
  show "getNamedMetadata (amend_function dic func m') ''nvvm.annotations'' =
           getNamedMetadata m' ''nvvm.annotations'' @
           (if 0 <s maxntidx meta then [maxntidx_node func (maxntidx meta)] else []) @
           (if is_kernel meta then [kernel_node func] else [])"
    by (simp add: getNamedMetadata_amend_function n)
  from assms(1) obtain fs gs where "functions' m = fs @ func # gs"
    by (auto dest: split_list)
  then have "getNamedMetadata (amend_functions dic m) ''nvvm.annotations'' =
      getNamedMetadata m ''nvvm.annotations'' @ concat (map (nodes_for dic) fs) @
      nodes_for dic func @ concat (map (nodes_for dic) gs)"
    by (simp add: getNamedMetadata_amend_functions)
  then show "\<exists>before after.
            getNamedMetadata (amend_functions dic m) ''nvvm.annotations'' =
              getNamedMetadata m ''nvvm.annotations'' @ before @
              (if 0 <s maxntidx meta then [maxntidx_node func (maxntidx meta)] else []) @
              (if is_kernel meta then [kernel_node func] else []) @ after"
    unfolding n by (metis append.assoc)
qed

theorem reattachment_nodes_per_function_witness:
  "\<lparr>fname = ''kernel0''\<rparr> \<in> set (functions' kernel0_only) \<and>
   DenseMap_find [(''kernel0'', \<lparr>maxntidx = 256, is_kernel = True\<rparr>)]
     (fname \<lparr>fname = ''kernel0''\<rparr>) = Some \<lparr>maxntidx = 256, is_kernel = True\<rparr> \<and>
   getNamedMetadata
     (amend_function [(''kernel0'', \<lparr>maxntidx = 256, is_kernel = True\<rparr>)]
        \<lparr>fname = ''kernel0''\<rparr> kernel0_only) ''nvvm.annotations'' =
     [maxntidx_node \<lparr>fname = ''kernel0''\<rparr> 256, kernel_node \<lparr>fname = ''kernel0''\<rparr>]"
proof -
  have a: "\<lparr>fname = ''kernel0''\<rparr> \<in> set (functions' kernel0_only)"
    by (simp add: kernel0_only_def)
  have b: "DenseMap_find [(''kernel0'', \<lparr>maxntidx = 256, is_kernel = True\<rparr>)]
     (fname \<lparr>fname = ''kernel0''\<rparr>) = Some \<lparr>maxntidx = 256, is_kernel = True\<rparr>"
    by (simp add: DenseMap_find_def)
  have c: "getNamedMetadata kernel0_only ''nvvm.annotations'' = []"
    by (simp add: getNamedMetadata_def kernel0_only_def)
  from reattachment_nodes_per_function [OF a b, of kernel0_only] a b c
  show ?thesis by (simp add: word_sless_alt)
qed

text \<open>
  C10, as stated, does not hold for every value outside the range of the field: the
  attribute value \<open>2\<^sup>3\<^sup>1\<close> is stored as \<open>- 2\<^sup>3\<^sup>1\<close>, which is not greater than 0, and no
  \<^verbatim>\<open>maxntidx\<close> node is emitted at all.
\<close>

theorem negative_field_counterexample:
  "getAttr msb_kernel (MaxNTid example_fields) = Some (IntegerAttr 2147483648) \<and>
   sint (2147483648 :: 64 word) = 2147483648 \<and>
   extract_op example_fields msb_kernel [] =
     Inr [(''wide'', \<lparr>maxntidx = 2147483648, is_kernel = False\<rparr>)] \<and>
   sint (2147483648 :: 32 word) = - 2147483648 \<and>
   getNamedMetadata
     (amendLLVMFunc \<lparr>fname = ''wide''\<rparr> \<lparr>maxntidx = 2147483648, is_kernel = False\<rparr>
        kernel0_only) ''nvvm.annotations'' = []"
proof (intro conjI)
  show "getAttr msb_kernel (MaxNTid example_fields) = Some (IntegerAttr 2147483648)"
    by (simp add: getAttr_def msb_kernel_def example_fields_def)
  show "sint (2147483648 :: 64 word) = 2147483648"
    by simp
  show "extract_op example_fields msb_kernel [] =
     Inr [(''wide'', \<lparr>maxntidx = 2147483648, is_kernel = False\<rparr>)]"
    by (simp add: msb_kernel_def example_fields_def extract_op_def extract_maxntid_def
      extract_kernel_def hasAttr_def getAttr_def NVVMMetadata_init_def try_emplace_def
      DenseMap_find_def)
  show "sint (2147483648 :: 32 word) = - 2147483648"
    by simp
  show "getNamedMetadata
     (amendLLVMFunc \<lparr>fname = ''wide''\<rparr> \<lparr>maxntidx = 2147483648, is_kernel = False\<rparr>
        kernel0_only) ''nvvm.annotations'' = []"
    by (simp add: getNamedMetadata_amendLLVMFunc nodes_of_def word_sless_alt
        getNamedMetadata_kernel0_only)
qed

text \<open>
  C10, amended. The value of an integer thread-limit attribute, a 64-bit integer, is
  stored in the 32-bit field of the record: the field, read as a signed number, is the
  value reduced modulo \<open>2\<^sup>3\<^sup>2\<close> into the signed 32-bit range (read as unsigned: the value
  modulo \<open>2\<^sup>3\<^sup>2\<close>), and it is not the value of the attribute when that lies outside the
  range. A \<^verbatim>\<open>maxntidx\<close> node is emitted only when the field is greater than 0, and then it
  has the field as its 32-bit constant; when the field is 0 or negative, no \<^verbatim>\<open>maxntidx\<close>
  node is emitted.
\<close>

theorem limit_narrowed_to_32_bits:
  assumes "getAttr fop (MaxNTid fld) = Some (IntegerAttr v)"
  shows "\<exists>meta. extract_op fld fop [] = Inr [(sym_name fop, meta)] \<and>
           sint (maxntidx meta) = (sint v + 2 ^ 31) mod 2 ^ 32 - 2 ^ 31 \<and>
           uint (maxntidx meta) = sint v mod 2 ^ 32 \<and>
           (sint v < - (2 ^ 31) \<or> 2 ^ 31 \<le> sint v \<longrightarrow> sint (maxntidx meta) \<noteq> sint v) \<and>
           getNamedMetadata (amendLLVMFunc func meta m) ''nvvm.annotations'' =
             getNamedMetadata m ''nvvm.annotations'' @
             (if 0 < sint (maxntidx meta) then [maxntidx_node func (maxntidx meta)] else []) @
             (if hasAttr fop (Kernel fld) then [kernel_node func] else [])"
proof (intro exI conjI)
  show "extract_op fld fop [] = Inr [(sym_name fop, meta_of fld fop)]"
    using assms
    by (simp add: extract_op_eq malformed_def annotated_def hasAttr_def try_emplace_def
        DenseMap_find_def)
  have m: "maxntidx (meta_of fld fop) = ucast v"
    using assms by (simp add: meta_of_def)
  show "sint (maxntidx (meta_of fld fop)) = (sint v + 2 ^ 31) mod 2 ^ 32 - 2 ^ 31"
    unfolding m by (rule sint_narrow)
  show "uint (maxntidx (meta_of fld fop)) = sint v mod 2 ^ 32"
    unfolding m by (rule uint_narrow)
  show "sint v < - (2 ^ 31) \<or> 2 ^ 31 \<le> sint v \<longrightarrow> sint (maxntidx (meta_of fld fop)) \<noteq> sint v"
    unfolding m using sint_narrow_neq [of v] by blast
  show "getNamedMetadata (amendLLVMFunc func (meta_of fld fop) m) ''nvvm.annotations'' =
             getNamedMetadata m ''nvvm.annotations'' @
             (if 0 < sint (maxntidx (meta_of fld fop))
              then [maxntidx_node func (maxntidx (meta_of fld fop))] else []) @
             (if hasAttr fop (Kernel fld) then [kernel_node func] else [])"
    by (simp add: getNamedMetadata_amendLLVMFunc nodes_of_def word_sless_alt meta_of_def)
qed

theorem limit_narrowed_to_32_bits_witness:
  "getAttr wide_kernel (MaxNTid example_fields) = Some (IntegerAttr 4294967301) \<and>
   extract_op example_fields wide_kernel [] =
     Inr [(''wide'', \<lparr>maxntidx = 5, is_kernel = False\<rparr>)] \<and>
   getNamedMetadata (amendLLVMFunc \<lparr>fname = ''wide''\<rparr> \<lparr>maxntidx = 5, is_kernel = False\<rparr>
       kernel0_only) ''nvvm.annotations'' = [maxntidx_node \<lparr>fname = ''wide''\<rparr> 5]"
proof -
  have a: "getAttr wide_kernel (MaxNTid example_fields) = Some (IntegerAttr 4294967301)"
    by (simp add: getAttr_def wide_kernel_def example_fields_def)
  have b: "extract_op example_fields wide_kernel [] =
     Inr [(''wide'', \<lparr>maxntidx = 5, is_kernel = False\<rparr>)]"
    by (simp add: wide_kernel_def example_fields_def extract_op_def extract_maxntid_def
      extract_kernel_def hasAttr_def getAttr_def NVVMMetadata_init_def try_emplace_def
      DenseMap_find_def)
  have c: "getNamedMetadata kernel0_only ''nvvm.annotations'' = []"
    by (simp add: getNamedMetadata_def kernel0_only_def)
  have d: "\<not> hasAttr wide_kernel (Kernel example_fields)"
    by (simp add: hasAttr_def getAttr_def wide_kernel_def example_fields_def)
  from limit_narrowed_to_32_bits [OF a, of "\<lparr>fname = ''wide''\<rparr>" kernel0_only] a b c d
  show ?thesis by auto
qed

text \<open>
  C5. When the driver returns a module, its functions are those of the optimised module
  and its \<^verbatim>\<open>nvvm.annotations\<close> collection is that of the optimised module followed by the
  added nodes. Every added node is the \<^verbatim>\<open>maxntidx\<close> node or the \<^verbatim>\<open>kernel\<close> node of a
  function of the optimised module whose name has a record in the side table, and the
  field of that record is not at its default (the limit is not -1, the entry-point flag
  is not false). No added node refers to a name that is not a function of the optimised
  module: a function that the optimiser removed gets no node.
\<close>

theorem no_fabricated_annotations:
  assumes "returned (TranslateLLVMToLLVMIR fld ext module) = Inr (Some M)"
  shows "\<exists>nvvmMetadata llvmModule optimized added.
           extractNVVMMetadata fld module [] = Inr nvvmMetadata \<and>
           translateModuleToLLVMIR ext module = Some llvmModule \<and>
           optPipeline ext (setupTargetTriple ext llvmModule) = (None, optimized) \<and>
           functions' M = functions' optimized \<and>
           getNamedMetadata M ''nvvm.annotations'' =
             getNamedMetadata optimized ''nvvm.annotations'' @ added \<and>
           (\<forall>node \<in> set added.
              \<exists>func \<in> set (functions' optimized). \<exists>meta.
                DenseMap_find nvvmMetadata (fname func) = Some meta \<and>
                (node = maxntidx_node func (maxntidx meta) \<and> maxntidx meta \<noteq> - 1 \<or>
                 node = kernel_node func \<and> is_kernel meta \<noteq> False)) \<and>
           (\<forall>node \<in> set added. \<forall>n.
              ValueAsMetadata (Function_ref n) \<in> set (operands node) \<longrightarrow>
                n \<in> fname ` set (functions' optimized))"
proof -
  from TranslateLLVMToLLVMIR_Some [OF assms]
  obtain nvvmMetadata llvmModule optimized where
    e: "extractNVVMMetadata fld module [] = Inr nvvmMetadata" and
    t: "translateModuleToLLVMIR ext module = Some llvmModule" and
    p: "optPipeline ext (setupTargetTriple ext llvmModule) = (None, optimized)" and
    M: "M = amend_functions nvvmMetadata optimized"
    by blast
  let ?added = "concat (map (nodes_for nvvmMetadata) (functions' optimized))"
  have f: "functions' M = functions' optimized"
    by (simp add: M functions_amend_functions)
  have g: "getNamedMetadata M ''nvvm.annotations'' =
      getNamedMetadata optimized ''nvvm.annotations'' @ ?added"
    by (simp add: M getNamedMetadata_amend_functions)
  have c: "\<exists>func \<in> set (functions' optimized). \<exists>meta.
                DenseMap_find nvvmMetadata (fname func) = Some meta \<and>
                (node = maxntidx_node func (maxntidx meta) \<and> 0 <s maxntidx meta \<or>
                 node = kernel_node func \<and> is_kernel meta)"
    if "node \<in> set ?added" for node
  proof -
    from that obtain func where "func \<in> set (functions' optimized)"
      and "node \<in> set (nodes_for nvvmMetadata func)"
      by auto
    with nodes_for_cases [of node nvvmMetadata func] show ?thesis
      by blast
  qed
  have h1: "\<forall>node \<in> set ?added.
              \<exists>func \<in> set (functions' optimized). \<exists>meta.
                DenseMap_find nvvmMetadata (fname func) = Some meta \<and>
                (node = maxntidx_node func (maxntidx meta) \<and> maxntidx meta \<noteq> - 1 \<or>
                 node = kernel_node func \<and> is_kernel meta \<noteq> False)"
  proof
    fix node assume "node \<in> set ?added"
    from c [OF this] obtain func meta where
      "func \<in> set (functions' optimized)"
      "DenseMap_find nvvmMetadata (fname func) = Some meta"
      "node = maxntidx_node func (maxntidx meta) \<and> 0 <s maxntidx meta \<or>
       node = kernel_node func \<and> is_kernel meta"
      by blast
    moreover have "0 <s maxntidx meta \<Longrightarrow> maxntidx meta \<noteq> - 1"
      by (auto simp: word_sless_alt)
    ultimately show "\<exists>func \<in> set (functions' optimized). \<exists>meta.
                DenseMap_find nvvmMetadata (fname func) = Some meta \<and>
                (node = maxntidx_node func (maxntidx meta) \<and> maxntidx meta \<noteq> - 1 \<or>
                 node = kernel_node func \<and> is_kernel meta \<noteq> False)"
      by blast
  qed
  have h2: "\<forall>node \<in> set ?added. \<forall>n.
              ValueAsMetadata (Function_ref n) \<in> set (operands node) \<longrightarrow>
                n \<in> fname ` set (functions' optimized)"
  proof (intro ballI allI impI)
    fix node n
    assume "node \<in> set ?added" and r: "ValueAsMetadata (Function_ref n) \<in> set (operands node)"
    from c [OF this(1)] obtain func where
      "func \<in> set (functions' optimized)"
      "(\<exists>k. node = maxntidx_node func k) \<or> node = kernel_node func"
      by blast
    with r show "n \<in> fname ` set (functions' optimized)"
      by (auto simp: maxntidx_node_def kernel_node_def)
  qed
  show ?thesis
    by (rule exI [of _ nvvmMetadata], rule exI [of _ llvmModule], rule exI [of _ optimized],
        rule exI [of _ ?added], intro conjI) (rule e t p f g h1 h2)+
qed

theorem no_fabricated_annotations_witness:
  "returned (TranslateLLVMToLLVMIR example_fields dropping_optimizer dead_helper_module) =
     Inr (Some (amend_functions
         [(''helper'', \<lparr>maxntidx = 128, is_kernel = False\<rparr>),
          (''kernel0'', \<lparr>maxntidx = 256, is_kernel = True\<rparr>)] kernel0_only)) \<and>
   getNamedMetadata (amend_functions
         [(''helper'', \<lparr>maxntidx = 128, is_kernel = False\<rparr>),
          (''kernel0'', \<lparr>maxntidx = 256, is_kernel = True\<rparr>)] kernel0_only)
      ''nvvm.annotations'' =
     [maxntidx_node \<lparr>fname = ''kernel0''\<rparr> 256, kernel_node \<lparr>fname = ''kernel0''\<rparr>] \<and>
   (\<exists>nvvmMetadata optimized added.
      extractNVVMMetadata example_fields dead_helper_module [] = Inr nvvmMetadata \<and>
      getNamedMetadata (amend_functions
         [(''helper'', \<lparr>maxntidx = 128, is_kernel = False\<rparr>),
          (''kernel0'', \<lparr>maxntidx = 256, is_kernel = True\<rparr>)] kernel0_only)
        ''nvvm.annotations'' = getNamedMetadata optimized ''nvvm.annotations'' @ added \<and>
      (\<forall>node \<in> set added. \<forall>n.
          ValueAsMetadata (Function_ref n) \<in> set (operands node) \<longrightarrow>
            n \<in> fname ` set (functions' optimized)))"
proof -
  have r: "returned (TranslateLLVMToLLVMIR example_fields dropping_optimizer dead_helper_module) =
     Inr (Some (amend_functions
         [(''helper'', \<lparr>maxntidx = 128, is_kernel = False\<rparr>),
          (''kernel0'', \<lparr>maxntidx = 256, is_kernel = True\<rparr>)] kernel0_only))"
    by (simp add: run_dead_helper_module)
  have v: "getNamedMetadata (amend_functions
         [(''helper'', \<lparr>maxntidx = 128, is_kernel = False\<rparr>),
          (''kernel0'', \<lparr>maxntidx = 256, is_kernel = True\<rparr>)] kernel0_only)
      ''nvvm.annotations'' =
     [maxntidx_node \<lparr>fname = ''kernel0''\<rparr> 256, kernel_node \<lparr>fname = ''kernel0''\<rparr>]"
    by (simp add: getNamedMetadata_amend_functions nodes_for_def nodes_of_def
        DenseMap_find_def getNamedMetadata_kernel0_only functions_kernel0_only
        word_sless_alt)
  from no_fabricated_annotations [OF r]
  obtain nvvmMetadata optimized added where
    "extractNVVMMetadata example_fields dead_helper_module [] = Inr nvvmMetadata"
    "getNamedMetadata (amend_functions
         [(''helper'', \<lparr>maxntidx = 128, is_kernel = False\<rparr>),
          (''kernel0'', \<lparr>maxntidx = 256, is_kernel = True\<rparr>)] kernel0_only)
        ''nvvm.annotations'' = getNamedMetadata optimized ''nvvm.annotations'' @ added"
    "\<forall>node \<in> set added. \<forall>n.
          ValueAsMetadata (Function_ref n) \<in> set (operands node) \<longrightarrow>
            n \<in> fname ` set (functions' optimized)"
    by metis
  then have "\<exists>nvvmMetadata optimized added.
      extractNVVMMetadata example_fields dead_helper_module [] = Inr nvvmMetadata \<and>
      getNamedMetadata (amend_functions
         [(''helper'', \<lparr>maxntidx = 128, is_kernel = False\<rparr>),
          (''kernel0'', \<lparr>maxntidx = 256, is_kernel = True\<rparr>)] kernel0_only)
        ''nvvm.annotations'' = getNamedMetadata optimized ''nvvm.annotations'' @ added \<and>
      (\<forall>node \<in> set added. \<forall>n.
          ValueAsMetadata (Function_ref n) \<in> set (operands node) \<longrightarrow>
            n \<in> fname ` set (functions' optimized))"
    by (intro exI conjI)
  with r v show ?thesis by (intro conjI)
qed

text \<open>
  C1, as stated, does not hold: the function \<^verbatim>\<open>kernel0\<close> with the entry-point attribute and
  the thread-limit attribute 0 is in the returned module, and the collection has its
  \<^verbatim>\<open>kernel\<close> node only, no \<^verbatim>\<open>maxntidx\<close> node with the value 0.
\<close>

theorem zero_limit_not_preserved_counterexample:
  "zero_kernel \<in> set (getOps_LLVMFuncOp zero_module) \<and>
   getAttr zero_kernel (MaxNTid example_fields) = Some (IntegerAttr 0) \<and>
   returned (TranslateLLVMToLLVMIR example_fields plain_external zero_module) =
     Inr (Some (amend_functions [(''kernel0'', \<lparr>maxntidx = 0, is_kernel = True\<rparr>)]
                  kernel0_only)) \<and>
   functions' (amend_functions [(''kernel0'', \<lparr>maxntidx = 0, is_kernel = True\<rparr>)]
                  kernel0_only) = [\<lparr>fname = sym_name zero_kernel\<rparr>] \<and>
   getNamedMetadata (amend_functions [(''kernel0'', \<lparr>maxntidx = 0, is_kernel = True\<rparr>)]
                  kernel0_only) ''nvvm.annotations'' = [kernel_node \<lparr>fname = ''kernel0''\<rparr>]"
proof (intro conjI)
  show "zero_kernel \<in> set (getOps_LLVMFuncOp zero_module)"
    by (simp add: getOps_LLVMFuncOp_def zero_module_def)
  show "getAttr zero_kernel (MaxNTid example_fields) = Some (IntegerAttr 0)"
    by (simp add: getAttr_def zero_kernel_def example_fields_def)
  show "returned (TranslateLLVMToLLVMIR example_fields plain_external zero_module) =
     Inr (Some (amend_functions [(''kernel0'', \<lparr>maxntidx = 0, is_kernel = True\<rparr>)]
                  kernel0_only))"
    by (simp add: run_zero_module)
  show "functions' (amend_functions [(''kernel0'', \<lparr>maxntidx = 0, is_kernel = True\<rparr>)]
                  kernel0_only) = [\<lparr>fname = sym_name zero_kernel\<rparr>]"
    by (simp add: functions_amend_functions functions_kernel0_only zero_kernel_def)
  show "getNamedMetadata (amend_functions [(''kernel0'', \<lparr>maxntidx = 0, is_kernel = True\<rparr>)]
                  kernel0_only) ''nvvm.annotations'' = [kernel_node \<lparr>fname = ''kernel0''\<rparr>]"
    by (simp add: getNamedMetadata_amend_functions nodes_for_def nodes_of_def
        DenseMap_find_def getNamedMetadata_kernel0_only functions_kernel0_only)
qed

text \<open>
  C1, amended. Let the driver return a module, let a function operation of the source
  module be the only one of its name, and let a function of that name be in the returned
  module. If the operation has the entry-point attribute, the \<^verbatim>\<open>kernel\<close> node of the
  function is in the \<^verbatim>\<open>nvvm.annotations\<close> collection of the returned module. If its
  thread-limit attribute is an integer attribute with a value from 1 to \<open>2\<^sup>3\<^sup>1 - 1\<close>, the
  \<^verbatim>\<open>maxntidx\<close> node of the function with that same value is in the collection.
\<close>

theorem annotations_preserved:
  assumes ret: "returned (TranslateLLVMToLLVMIR fld ext module) = Inr (Some M)"
    and mem: "fop \<in> set (getOps_LLVMFuncOp module)"
    and uniq: "\<forall>g \<in> set (getOps_LLVMFuncOp module). sym_name g = sym_name fop \<longrightarrow> g = fop"
    and func: "func \<in> set (functions' M)"
    and name: "fname func = sym_name fop"
  shows "(hasAttr fop (Kernel fld) \<longrightarrow>
            kernel_node func \<in> set (getNamedMetadata M ''nvvm.annotations'')) \<and>
         (\<forall>v. getAttr fop (MaxNTid fld) = Some (IntegerAttr v) \<and> 0 < sint v \<and> sint v < 2 ^ 31 \<longrightarrow>
            maxntidx_node func (ucast v) \<in> set (getNamedMetadata M ''nvvm.annotations'') \<and>
            sint (ucast v :: 32 word) = sint v \<and> uint (ucast v :: 32 word) = sint v)"
proof -
  from TranslateLLVMToLLVMIR_Some [OF ret]
  obtain nvvmMetadata llvmModule optimized where
    e: "extractNVVMMetadata fld module [] = Inr nvvmMetadata" and
    M: "M = amend_functions nvvmMetadata optimized"
    by blast
  from func have f: "func \<in> set (functions' optimized)"
    by (simp add: M functions_amend_functions)
  have sub: "set (nodes_for nvvmMetadata func) \<subseteq> set (getNamedMetadata M ''nvvm.annotations'')"
    using f by (auto simp: M getNamedMetadata_amend_functions)
  have rec: "DenseMap_find nvvmMetadata (fname func) = Some (meta_of fld fop)"
    if a: "annotated fld fop"
  proof -
    have "List.find (\<lambda>g. sym_name g = sym_name fop \<and> annotated fld g)
            (getOps_LLVMFuncOp module) = Some fop"
      using mem a uniq by (intro find_unique) simp_all
    moreover from e have "extract_ops fld (getOps_LLVMFuncOp module) [] = Inr nvvmMetadata"
      by (simp add: extractNVVMMetadata_def)
    from extract_ops_find [OF this, of "sym_name fop"]
    have "DenseMap_find nvvmMetadata (sym_name fop) =
        map_option (meta_of fld)
          (List.find (\<lambda>g. sym_name g = sym_name fop \<and> annotated fld g)
            (getOps_LLVMFuncOp module))"
      by (simp add: DenseMap_find_def)
    ultimately show ?thesis by (simp add: name)
  qed
  have k: "kernel_node func \<in> set (getNamedMetadata M ''nvvm.annotations'')"
    if h: "hasAttr fop (Kernel fld)"
  proof -
    from h have "annotated fld fop" by (simp add: annotated_def)
    from rec [OF this] h have "kernel_node func \<in> set (nodes_for nvvmMetadata func)"
      by (simp add: nodes_for_def nodes_of_def meta_of_def)
    with sub show ?thesis by blast
  qed
  have m: "maxntidx_node func (ucast v) \<in> set (getNamedMetadata M ''nvvm.annotations'') \<and>
            sint (ucast v :: 32 word) = sint v \<and> uint (ucast v :: 32 word) = sint v"
    if h: "getAttr fop (MaxNTid fld) = Some (IntegerAttr v)" and pos: "0 < sint v"
      and small: "sint v < 2 ^ 31" for v
  proof -
    from h have "annotated fld fop" by (simp add: annotated_def hasAttr_def)
    note r = rec [OF this]
    have s: "sint (ucast v :: 32 word) = sint v"
      using pos small by (intro sint_narrow_id) simp_all
    have u: "uint (ucast v :: 32 word) = sint v"
      using pos small by (simp add: uint_narrow)
    from s pos have "0 <s (ucast v :: 32 word)"
      by (simp add: word_sless_alt)
    with r h have "maxntidx_node func (ucast v) \<in> set (nodes_for nvvmMetadata func)"
      by (simp add: nodes_for_def nodes_of_def meta_of_def)
    with sub s u show ?thesis by blast
  qed
  from k m show ?thesis by blast
qed

theorem annotations_preserved_witness:
  "returned (TranslateLLVMToLLVMIR example_fields dropping_optimizer example_module) =
     Inr (Some (amend_functions [(''kernel0'', \<lparr>maxntidx = 256, is_kernel = True\<rparr>)]
                  kernel0_only)) \<and>
   kernel0 \<in> set (getOps_LLVMFuncOp example_module) \<and>
   \<lparr>fname = ''kernel0''\<rparr> \<in> set (functions' (amend_functions
        [(''kernel0'', \<lparr>maxntidx = 256, is_kernel = True\<rparr>)] kernel0_only)) \<and>
   hasAttr kernel0 (Kernel example_fields) \<and>
   getAttr kernel0 (MaxNTid example_fields) = Some (IntegerAttr 256) \<and>
   kernel_node \<lparr>fname = ''kernel0''\<rparr> \<in> set (getNamedMetadata (amend_functions
        [(''kernel0'', \<lparr>maxntidx = 256, is_kernel = True\<rparr>)] kernel0_only)
        ''nvvm.annotations'') \<and>
   maxntidx_node \<lparr>fname = ''kernel0''\<rparr> 256 \<in> set (getNamedMetadata (amend_functions
        [(''kernel0'', \<lparr>maxntidx = 256, is_kernel = True\<rparr>)] kernel0_only)
        ''nvvm.annotations'')"
proof -
  let ?M = "amend_functions [(''kernel0'', \<lparr>maxntidx = 256, is_kernel = True\<rparr>)] kernel0_only"
  have r: "returned (TranslateLLVMToLLVMIR example_fields dropping_optimizer example_module) =
     Inr (Some ?M)"
    by (simp add: run_example_module)
  have a: "kernel0 \<in> set (getOps_LLVMFuncOp example_module)"
    by (simp add: getOps_LLVMFuncOp_def example_module_def)
  have u: "\<forall>g \<in> set (getOps_LLVMFuncOp example_module).
             sym_name g = sym_name kernel0 \<longrightarrow> g = kernel0"
    by (simp add: getOps_LLVMFuncOp_def example_module_def helper_def kernel0_def)
  have f: "\<lparr>fname = ''kernel0''\<rparr> \<in> set (functions' ?M)"
    by (simp add: functions_amend_functions functions_kernel0_only)
  have n: "fname \<lparr>fname = ''kernel0''\<rparr> = sym_name kernel0"
    by (simp add: kernel0_def)
  have h: "hasAttr kernel0 (Kernel example_fields)"
    by (simp add: hasAttr_def getAttr_def kernel0_def example_fields_def)
  have g: "getAttr kernel0 (MaxNTid example_fields) = Some (IntegerAttr 256)"
    by (simp add: getAttr_def kernel0_def example_fields_def)
  have c: "(ucast (256 :: 64 word) :: 32 word) = 256" by simp
  have p: "0 < sint (256 :: 64 word) \<and> sint (256 :: 64 word) < 2 ^ 31" by simp
  from annotations_preserved [OF r a u f n] h g p c
  have "kernel_node \<lparr>fname = ''kernel0''\<rparr> \<in> set (getNamedMetadata ?M ''nvvm.annotations'')"
    and "maxntidx_node \<lparr>fname = ''kernel0''\<rparr> 256 \<in> set (getNamedMetadata ?M ''nvvm.annotations'')"
    by metis+
  with r a f h g show ?thesis by (intro conjI)
qed

end
